theory Spec2Isabelle
  imports Main "HOL-Library.Word"
begin

section \<open>Bytes, errors and Python list access\<close>

type_synonym byte = "8 word"
type_synonym bytes = "byte list"

text \<open>The exceptions the modelled code can raise, as values.\<close>

datatype error =
    ValueError | FileNotFoundError | AssertionError | StructError
  | IndexError | KeyError | AttributeError | TypeError | NotImplementedError

text \<open>Python's \<^verbatim>\<open>xs[i]\<close>: a negative index counts from the end, anything out of
  range raises IndexError (here: no position).\<close>

definition py_index :: "'a list \<Rightarrow> int \<Rightarrow> nat option" where
  "py_index xs i =
     (let n = int (length xs); j = (if i < 0 then n + i else i)
      in if 0 \<le> j \<and> j < n then Some (nat j) else None)"

section \<open>BinaryReader and BinaryWriter\<close>

text \<open>Modelled from the spec: the classes BinaryReader and BinaryWriter of formats/binary.py
  are not under src/. The spec fixes what read_stream and write_stream need of them: u32
  fields (little-endian, as the container's on-disk layout has them), raw byte reads and
  writes at a cursor \<^verbatim>\<open>c\<close>, absolute and relative seeks, and a variable-length name
  followed by zero padding, so a name is read up to the first zero byte. The stream under
  both is an in-memory byte buffer (io.BytesIO): a read past the end is short, a write past
  the end fills the gap with zero bytes, an empty write changes nothing. Names are taken on
  the single-byte range of the name encoding: one character, one byte.\<close>

record BinaryReader =
  rdr_data :: bytes
  rdr_c :: nat

definition uint32_of_bytes :: "bytes \<Rightarrow> nat" where
  "uint32_of_bytes bs = foldr (\<lambda>b acc. unat b + 256 * acc) bs 0"

definition bytes_of_uint32 :: "nat \<Rightarrow> bytes" where
  "bytes_of_uint32 n =
     [word_of_nat n, word_of_nat (n div 256), word_of_nat (n div 65536),
      word_of_nat (n div 16777216)]"

definition read :: "BinaryReader \<Rightarrow> nat \<Rightarrow> bytes \<times> BinaryReader" where
  "read rdr n =
     (let bs = take n (drop (rdr_c rdr) (rdr_data rdr))
      in (bs, rdr\<lparr>rdr_c := rdr_c rdr + length bs\<rparr>))"

definition read_uint32 :: "BinaryReader \<Rightarrow> error + (nat \<times> BinaryReader)" where
  "read_uint32 rdr =
     (case read rdr 4 of (bs, rdr') \<Rightarrow>
        if length bs = 4 then Inr (uint32_of_bytes bs, rdr') else Inl StructError)"

definition seek :: "BinaryReader \<Rightarrow> nat \<Rightarrow> BinaryReader" where
  "seek rdr p = rdr\<lparr>rdr_c := p\<rparr>"

definition seek_cur :: "BinaryReader \<Rightarrow> nat \<Rightarrow> BinaryReader" where
  "seek_cur rdr n = rdr\<lparr>rdr_c := rdr_c rdr + n\<rparr>"

definition byte_of_char :: "char \<Rightarrow> byte" where
  "byte_of_char ch = word_of_nat (of_char ch)"

definition char_of_byte :: "byte \<Rightarrow> char" where
  "char_of_byte b = char_of (unat b)"

text \<open>The bytes of a name up to the first zero byte or the end of the data, and how many
  bytes were consumed (the terminator included when there is one).\<close>

fun read_until_pad :: "bytes \<Rightarrow> bytes \<times> nat" where
  "read_until_pad [] = ([], 0)"
| "read_until_pad (b # bs) =
     (if b = 0 then ([], 1)
      else (case read_until_pad bs of (nm, k) \<Rightarrow> (b # nm, Suc k)))"

definition read_string :: "BinaryReader \<Rightarrow> string \<times> BinaryReader" where
  "read_string rdr =
     (case read_until_pad (drop (rdr_c rdr) (rdr_data rdr)) of (nm, k) \<Rightarrow>
        (map char_of_byte nm, rdr\<lparr>rdr_c := rdr_c rdr + k\<rparr>))"

record BinaryWriter =
  wtr_data :: bytes
  wtr_c :: nat

definition write_bytes :: "BinaryWriter \<Rightarrow> bytes \<Rightarrow> BinaryWriter" where
  "write_bytes wtr bs =
     (if bs = [] then wtr
      else wtr\<lparr>wtr_data :=
                 take (wtr_c wtr) (wtr_data wtr)
                 @ replicate (wtr_c wtr - length (wtr_data wtr)) 0
                 @ bs
                 @ drop (wtr_c wtr + length bs) (wtr_data wtr),
               wtr_c := wtr_c wtr + length bs\<rparr>)"

definition write_uint32 :: "BinaryWriter \<Rightarrow> nat \<Rightarrow> error + BinaryWriter" where
  "write_uint32 wtr n =
     (if n < 4294967296 then Inr (write_bytes wtr (bytes_of_uint32 n)) else Inl StructError)"

definition write_uint8 :: "BinaryWriter \<Rightarrow> nat \<Rightarrow> error + BinaryWriter" where
  "write_uint8 wtr n =
     (if n < 256 then Inr (write_bytes wtr [word_of_nat n]) else Inl StructError)"

definition write_string :: "BinaryWriter \<Rightarrow> string \<Rightarrow> BinaryWriter" where
  "write_string wtr s = write_bytes wtr (map byte_of_char s @ [0])"

definition wseek :: "BinaryWriter \<Rightarrow> nat \<Rightarrow> BinaryWriter" where
  "wseek wtr p = wtr\<lparr>wtr_c := p\<rparr>"

section \<open>Archive, RomFile\<close>

text \<open>A RomFile object: the slot id it was opened against, the operation, the buffer of
  the underlying BytesIO with its position, and whether it is closed.\<close>

record RomFile =
  rf_id :: int
  opp :: char
  rf_value :: bytes
  rf_pos :: nat
  closed :: bool

text \<open>The class Archive: the slot list \<^verbatim>\<open>files\<close> and the registry \<^verbatim>\<open>opened_files\<close>.
  RomFile objects are mutable and compared by identity, so they live in a store
  (\<open>handles\<close>, a reference is an index into it) and the registry holds references.\<close>

record Archive =
  files :: "bytes list"
  handles :: "RomFile list"
  opened_files :: "nat list"

text \<open>\<^verbatim>\<open>RomFile.__init__\<close>: the object registers itself before its buffer is read from
  the slot, so a failing slot access leaves it registered.\<close>

definition RomFile_init ::
  "'a Archive_scheme \<Rightarrow> int \<Rightarrow> char \<Rightarrow> (error + nat) \<times> 'a Archive_scheme" where
  "RomFile_init archive index operation =
     (if operation \<notin> set ''rwa'' then (Inl NotImplementedError, archive)
      else
        let self = length (handles archive);
            obj = \<lparr>rf_id = index, opp = operation, rf_value = [], rf_pos = 0, closed = False\<rparr>;
            archive1 = archive\<lparr>handles := handles archive @ [obj],
                                opened_files := opened_files archive @ [self]\<rparr>
        in if operation \<in> set ''ra'' then
             (case py_index (files archive1) index of
                None \<Rightarrow> (Inl IndexError, archive1)
              | Some k \<Rightarrow>
                  let content = files archive1 ! k;
                      obj1 = obj\<lparr>rf_value := content,
                                 rf_pos := (if operation = CHR ''a'' then length content else 0)\<rparr>
                  in (Inr self, archive1\<lparr>handles := (handles archive1)[self := obj1]\<rparr>))
           else (Inr self, archive1))"

definition RomFile_flush ::
  "'a Archive_scheme \<Rightarrow> nat \<Rightarrow> (error + unit) \<times> 'a Archive_scheme" where
  "RomFile_flush archive self =
     (let obj = handles archive ! self
      in if \<not> closed obj then
           (if opp obj \<noteq> CHR ''r'' then
              (case py_index (files archive) (rf_id obj) of
                 None \<Rightarrow> (Inl IndexError, archive)
               | Some k \<Rightarrow> (Inr (), archive\<lparr>files := (files archive)[k := rf_value obj]\<rparr>))
            else (Inr (), archive))
         else (Inr (), archive))"

definition RomFile_close ::
  "'a Archive_scheme \<Rightarrow> nat \<Rightarrow> (error + unit) \<times> 'a Archive_scheme" where
  "RomFile_close archive self =
     (case RomFile_flush archive self of
        (Inl e, archive1) \<Rightarrow> (Inl e, archive1)
      | (Inr u, archive1) \<Rightarrow>
          let obj = handles archive1 ! self;
              archive2 = archive1\<lparr>handles := (handles archive1)[self := obj\<lparr>closed := True\<rparr>]\<rparr>
          in (Inr (),
              if self \<in> set (opened_files archive2)
              then archive2\<lparr>opened_files := remove1 self (opened_files archive2)\<rparr>
              else archive2))"

section \<open>Opening modes\<close>

text \<open>\<^verbatim>\<open>re.findall(r"^([rwa])(b?)(\+?)$", mode)\<close>: the operation, whether \<^verbatim>\<open>b\<close> is
  given and whether \<^verbatim>\<open>+\<close> is given. Python's \<^verbatim>\<open>$\<close> also matches before one
  newline that ends the string.\<close>

definition parse_mode :: "string \<Rightarrow> (char \<times> bool \<times> bool) option" where
  "parse_mode mode =
     (let m = (if mode \<noteq> [] \<and> last mode = CHR 0x0A then butlast mode else mode)
      in case m of
           [] \<Rightarrow> None
         | ch # rest \<Rightarrow>
             if ch \<in> set ''rwa'' then
               (if rest = [] then Some (ch, False, False)
                else if rest = ''b'' then Some (ch, True, False)
                else if rest = ''+'' then Some (ch, False, True)
                else if rest = ''b+'' then Some (ch, True, True)
                else None)
             else None)"

text \<open>The first argument of \<^verbatim>\<open>open\<close>: a path or a slot id.\<close>

datatype file_arg = PathArg string | IdArg int

text \<open>What \<^verbatim>\<open>open\<close> returns: the RomFile, or an io.TextIOWrapper around it.\<close>

datatype stream = RomFileRef nat | TextIOWrapper nat

text \<open>Python's \<^verbatim>\<open>list.index\<close>: the first position of an element, if any.\<close>

fun list_index :: "'a list \<Rightarrow> 'a \<Rightarrow> nat option" where
  "list_index [] x = None"
| "list_index (y # ys) x = (if y = x then Some 0 else map_option Suc (list_index ys x))"

section \<open>PlzArchive\<close>

record PlzArchive = Archive +
  filenames :: "string list"

definition PlzArchive_add_file :: "PlzArchive \<Rightarrow> string \<Rightarrow> nat \<times> PlzArchive" where
  "PlzArchive_add_file self filename =
     (let new_file_id = length (files self)
      in (new_file_id,
          self\<lparr>files := files self @ [[]], filenames := filenames self @ [filename]\<rparr>))"

definition PlzArchive_remove_file :: "PlzArchive \<Rightarrow> string \<Rightarrow> (error + unit) \<times> PlzArchive" where
  "PlzArchive_remove_file self filename =
     (case list_index (filenames self) filename of
        None \<Rightarrow> (Inr (), self)
      | Some index \<Rightarrow>
          if index < length (files self) then
            (Inr (),
             self\<lparr>files := take index (files self) @ drop (Suc index) (files self),
                  filenames := take index (filenames self) @ drop (Suc index) (filenames self)\<rparr>)
          else (Inl IndexError, self))"

definition PlzArchive_rename_file :: "PlzArchive \<Rightarrow> string \<Rightarrow> string \<Rightarrow> PlzArchive" where
  "PlzArchive_rename_file self old_filename new_filename =
     (case list_index (filenames self) old_filename of
        None \<Rightarrow> self
      | Some index \<Rightarrow> self\<lparr>filenames := (filenames self)[index := new_filename]\<rparr>)"

definition PlzArchive_open ::
  "PlzArchive \<Rightarrow> file_arg \<Rightarrow> string \<Rightarrow> (error + stream) \<times> PlzArchive" where
  "PlzArchive_open self file mode =
     (case parse_mode mode of
        None \<Rightarrow> (Inl ValueError, self)
      | Some (operation, binary, create) \<Rightarrow>
          (let resolved =
                (case file of
                   IdArg i \<Rightarrow> (Inr i, self)
                 | PathArg name \<Rightarrow>
                     (case list_index (filenames self) name of
                        Some k \<Rightarrow> (Inr (int k), self)
                      | None \<Rightarrow>
                          (if create then
                             (case PlzArchive_add_file self name of (fileid, self1) \<Rightarrow>
                                if fileid = 0 then (Inl FileNotFoundError, self1)
                                else (Inr (int fileid), self1))
                           else (Inl FileNotFoundError, self))))
           in (case resolved of
                 (Inl e, self1) \<Rightarrow> (Inl e, self1)
               | (Inr fileid, self1) \<Rightarrow>
                   (case RomFile_init self1 fileid operation of
                      (Inl e, self2) \<Rightarrow> (Inl e, self2)
                    | (Inr rom_file, self2) \<Rightarrow>
                        (Inr (if binary then RomFileRef rom_file else TextIOWrapper rom_file),
                         self2)))))"

definition PCK2 :: bytes where
  "PCK2 = [0x50, 0x43, 0x4B, 0x32]"

text \<open>One pass through the body of the record loop of \<^verbatim>\<open>read_stream\<close>, up to the two
  appends: the name and the payload of the record at the cursor, and the reader moved to
  \<open>start_pos + file_total_size\<close>.\<close>

definition read_record :: "BinaryReader \<Rightarrow> error + (string \<times> bytes \<times> BinaryReader)" where
  "read_record rdr =
     (let start_pos = rdr_c rdr in
      (case read_uint32 rdr of
         Inl e \<Rightarrow> Inl e
       | Inr (file_header_size, rdr1) \<Rightarrow>
      (case read_uint32 rdr1 of
         Inl e \<Rightarrow> Inl e
       | Inr (file_total_size, rdr2) \<Rightarrow>
      (case read_uint32 (seek_cur rdr2 4) of
         Inl e \<Rightarrow> Inl e
       | Inr (file_size, rdr3) \<Rightarrow>
      (case read_string rdr3 of (filename, rdr4) \<Rightarrow>
      (case read (seek rdr4 (start_pos + file_header_size)) file_size of (file, rdr5) \<Rightarrow>
         Inr (filename, file, seek rdr5 (start_pos + file_total_size))))))))"

text \<open>The record loop. It runs while the cursor is before \<open>archive_file_size\<close> and
  jumps to where the record says the next one starts, so it need not end: not returning
  is \<open>None\<close>.\<close>

partial_function (option) read_records ::
  "BinaryReader \<Rightarrow> nat \<Rightarrow> PlzArchive \<Rightarrow> ((error + unit) \<times> PlzArchive) option" where
  "read_records rdr archive_file_size self =
     (if rdr_c rdr < archive_file_size then
        (case read_record rdr of
           Inl e \<Rightarrow> Some (Inl e, self)
         | Inr (filename, file, rdr') \<Rightarrow>
             read_records rdr' archive_file_size
               (self\<lparr>filenames := filenames self @ [filename],
                     files := files self @ [file]\<rparr>))
      else Some (Inr (), self))"

declare read_records.simps [code]

definition read_stream ::
  "PlzArchive \<Rightarrow> BinaryReader \<Rightarrow> ((error + unit) \<times> PlzArchive) option" where
  "read_stream self rdr =
     (let self1 = self\<lparr>filenames := [], files := []\<rparr> in
      (case read_uint32 rdr of
         Inl e \<Rightarrow> Some (Inl e, self1)
       | Inr (header_size, rdr1) \<Rightarrow>
      (case read_uint32 rdr1 of
         Inl e \<Rightarrow> Some (Inl e, self1)
       | Inr (archive_file_size, rdr2) \<Rightarrow>
      (case read rdr2 4 of (magic, rdr3) \<Rightarrow>
         if magic \<noteq> PCK2 then Some (Inl AssertionError, self1)
         else read_records (seek rdr3 header_size) archive_file_size self1))))"

text \<open>\<^verbatim>\<open>while wtr.c != c + total_size: wtr.write_uint8(0)\<close>. The test is an
  inequality, so the loop ends only when the cursor starts at or before the target: not
  returning is \<open>None\<close>.\<close>

partial_function (option) pad_until ::
  "BinaryWriter \<Rightarrow> nat \<Rightarrow> (error + BinaryWriter) option" where
  "pad_until wtr target =
     (if wtr_c wtr \<noteq> target then
        (case write_uint8 wtr 0 of
           Inl e \<Rightarrow> Some (Inl e)
         | Inr wtr' \<Rightarrow> pad_until wtr' target)
      else Some (Inr wtr))"

declare pad_until.simps [code]

text \<open>The two sizes \<^verbatim>\<open>write_stream\<close> computes for a record, as it computes them:
  \<^verbatim>\<open>header_size = 16 + len(name) + 1; header_size += 4 - header_size % 4\<close> and
  \<^verbatim>\<open>total_size = header_size + len(file); total_size += 4 - total_size % 4\<close>.\<close>

definition header_size_of :: "string \<Rightarrow> nat" where
  "header_size_of filename =
     (let header_size = 16 + length filename + 1
      in header_size + (4 - header_size mod 4))"

definition total_size_of :: "string \<Rightarrow> bytes \<Rightarrow> nat" where
  "total_size_of filename file =
     (let total_size = header_size_of filename + length file
      in total_size + (4 - total_size mod 4))"

text \<open>The body of the record loop of \<^verbatim>\<open>write_stream\<close> for index \<open>i\<close>.\<close>

definition write_entry ::
  "PlzArchive \<Rightarrow> nat \<Rightarrow> BinaryWriter \<Rightarrow> (error + BinaryWriter) option" where
  "write_entry self i wtr =
     (if i \<ge> length (filenames self) \<or> i \<ge> length (files self) then Some (Inl IndexError)
      else
        let filename = filenames self ! i;
            file = files self ! i;
            header_size = header_size_of filename;
            total_size = total_size_of filename file;
            c = wtr_c wtr
        in (case write_uint32 wtr header_size of
              Inl e \<Rightarrow> Some (Inl e)
            | Inr wtr1 \<Rightarrow>
           (case write_uint32 wtr1 total_size of
              Inl e \<Rightarrow> Some (Inl e)
            | Inr wtr2 \<Rightarrow>
           (case write_uint32 wtr2 0 of
              Inl e \<Rightarrow> Some (Inl e)
            | Inr wtr3 \<Rightarrow>
           (case write_uint32 wtr3 (length file) of
              Inl e \<Rightarrow> Some (Inl e)
            | Inr wtr4 \<Rightarrow>
                pad_until
                  (write_bytes (wseek (write_string wtr4 filename) (c + header_size)) file)
                  (c + total_size))))))"

fun write_entries ::
  "PlzArchive \<Rightarrow> nat list \<Rightarrow> BinaryWriter \<Rightarrow> (error + BinaryWriter) option" where
  "write_entries self [] wtr = Some (Inr wtr)"
| "write_entries self (i # is) wtr =
     (case write_entry self i wtr of
        None \<Rightarrow> None
      | Some (Inl e) \<Rightarrow> Some (Inl e)
      | Some (Inr wtr') \<Rightarrow> write_entries self is wtr')"

definition write_stream ::
  "PlzArchive \<Rightarrow> BinaryWriter \<Rightarrow> (error + BinaryWriter) option" where
  "write_stream self wtr =
     (case write_uint32 wtr 16 of
        Inl e \<Rightarrow> Some (Inl e)
      | Inr wtr1 \<Rightarrow>
     (case write_uint32 wtr1 0 of
        Inl e \<Rightarrow> Some (Inl e)
      | Inr wtr2 \<Rightarrow>
     (case write_uint32 (write_bytes wtr2 PCK2) 0 of
        Inl e \<Rightarrow> Some (Inl e)
      | Inr wtr3 \<Rightarrow>
     (case write_entries self [0..<length (files self)] wtr3 of
        None \<Rightarrow> None
      | Some (Inl e) \<Rightarrow> Some (Inl e)
      | Some (Inr wtr4) \<Rightarrow>
          (let file_size = length (wtr_data wtr4)
           in (case write_uint32 (wseek wtr4 4) file_size of
                 Inl e \<Rightarrow> Some (Inl e)
               | Inr wtr5 \<Rightarrow> Some (Inr wtr5)))))))"

text \<open>Encoding into a fresh stream, and decoding a byte buffer from its start.\<close>

definition encode :: "PlzArchive \<Rightarrow> (error + bytes) option" where
  "encode self =
     (case write_stream self \<lparr>wtr_data = [], wtr_c = 0\<rparr> of
        None \<Rightarrow> None
      | Some (Inl e) \<Rightarrow> Some (Inl e)
      | Some (Inr wtr) \<Rightarrow> Some (Inr (wtr_data wtr)))"

definition decode :: "PlzArchive \<Rightarrow> bytes \<Rightarrow> ((error + unit) \<times> PlzArchive) option" where
  "decode self bs = read_stream self \<lparr>rdr_data = bs, rdr_c = 0\<rparr>"

text \<open>"Rounds up to the next multiple of 4 and leaves multiples of 4 unchanged", in the
  spec's words; the encoder does not use it.\<close>

definition align4 :: "nat \<Rightarrow> nat" where
  "align4 n = ((n + 3) div 4) * 4"

section \<open>Example states\<close>

text \<open>A one-entry archive, and an encoded archive holding the entry \<open>x\<close> with payload
  1, 2, 3.\<close>

definition plz_example :: PlzArchive where
  "plz_example = \<lparr>files = [[1, 2]], handles = [], opened_files = [], filenames = [''x'']\<rparr>"

definition plz_example_bytes :: bytes where
  "plz_example_bytes =
     [16,0,0,0, 44,0,0,0, 0x50,0x43,0x4B,0x32, 0,0,0,0,
      20,0,0,0, 28,0,0,0, 0,0,0,0, 3,0,0,0, 0x78,0,0,0, 1,2,3,0,0,0,0,0]"

text \<open>Scenario B of the spec: the entries \<open>x\<close> with payload 1, 2, 3 and \<open>yy\<close> with an
  empty payload, and the bytes the encoder produces for them.\<close>

definition scenario_B :: PlzArchive where
  "scenario_B = \<lparr>files = [[1, 2, 3], []], handles = [], opened_files = [],
                  filenames = [''x'', ''yy'']\<rparr>"

definition scenario_B_bytes :: bytes where
  "scenario_B_bytes =
     [16,0,0,0, 64,0,0,0, 0x50,0x43,0x4B,0x32, 0,0,0,0,
      20,0,0,0, 24,0,0,0, 0,0,0,0, 3,0,0,0, 0x78,0,0,0, 1,2,3,0,
      20,0,0,0, 24,0,0,0, 0,0,0,0, 0,0,0,0, 0x79,0x79,0,0, 0,0,0,0]"

(* PROPERTIES *)

section \<open>Properties of the nested archive\<close>

text \<open>The equations that evaluate the decoder on a concrete buffer.\<close>

lemmas reader_simps = read_stream_def read_records.simps read_record_def read_uint32_def
  read_def seek_def seek_cur_def read_string_def uint32_of_bytes_def PCK2_def
  char_of_byte_def char_of_eq_iff

lemma list_index_less: "list_index xs x = Some k \<Longrightarrow> k < length xs"
  by (induction xs arbitrary: k) (auto split: if_splits)

lemma read_records_lengths_aux:
  assumes "read_records rdr n self = Some y"
  shows "length (filenames self) = length (files self) \<longrightarrow>
         length (filenames (snd y)) = length (files (snd y))"
proof (rule read_records.raw_induct
    [where P = "\<lambda>rdr n self y. length (filenames self) = length (files self) \<longrightarrow>
         length (filenames (snd y)) = length (files (snd y))", OF _ assms])
  fix rr rdr n self y
  assume IH: "\<And>rdr n self y. rr rdr n self = Some y \<Longrightarrow>
      length (filenames self) = length (files self) \<longrightarrow>
      length (filenames (snd y)) = length (files (snd y))"
    and body: "(if rdr_c rdr < n then
        (case read_record rdr of
           Inl e \<Rightarrow> Some (Inl e, self)
         | Inr (filename, file, rdr') \<Rightarrow>
             rr rdr' n (self\<lparr>filenames := filenames self @ [filename],
                     files := files self @ [file]\<rparr>))
      else Some (Inr (), self)) = Some y"
  show "length (filenames self) = length (files self) \<longrightarrow>
         length (filenames (snd y)) = length (files (snd y))"
  proof (cases "rdr_c rdr < n")
    case False
    with body show ?thesis by auto
  next
    case True
    show ?thesis
    proof (cases "read_record rdr")
      case (Inl e)
      with True body show ?thesis by auto
    next
      case (Inr t)
      obtain nm f r' where t: "t = (nm, f, r')" by (cases t) auto
      let ?s = "self\<lparr>filenames := filenames self @ [nm], files := files self @ [f]\<rparr>"
      from True Inr t body have "rr r' n ?s = Some y" by simp
      from IH [OF this] show ?thesis by simp
    qed
  qed
qed

lemma read_records_lengths:
  assumes "read_records rdr n self = Some y"
    and "length (filenames self) = length (files self)"
  shows "length (filenames (snd y)) = length (files (snd y))"
  using read_records_lengths_aux [OF assms(1)] assms(2) by simp

lemma read_stream_lengths:
  assumes "read_stream self rdr = Some y"
  shows "length (filenames (snd y)) = length (files (snd y))"
proof -
  let ?s = "self\<lparr>filenames := [], files := []\<rparr>"
  have e: "length (filenames ?s) = length (files ?s)" by simp
  from assms show ?thesis
    unfolding read_stream_def Let_def
    by (auto split: sum.splits prod.splits if_splits dest: read_records_lengths [OF _ e])
qed


text \<open>C9: every operation on a nested PLZ archive (decode, add_file, remove_file,
  rename_file) keeps \<open>len(filenames) = len(files)\<close>; add_file returns the index
  \<open>len(files)\<close> taken before the append, which is where the new entry then sits, so
  the entry ids are the positions 0..n-1. A decode that returns re-establishes the
  equality from any state.\<close>

theorem PlzArchive_operations_keep_lengths:
  assumes "length (filenames self) = length (files self)"
  shows "(case PlzArchive_add_file self nm of (new_file_id, self') \<Rightarrow>
            new_file_id = length (files self) \<and>
            length (filenames self') = length (files self') \<and>
            length (files self') = Suc new_file_id \<and>
            filenames self' ! new_file_id = nm \<and> files self' ! new_file_id = []) \<and>
         (case PlzArchive_remove_file self nm of (r, self') \<Rightarrow>
            r = Inr () \<and> length (filenames self') = length (files self')) \<and>
         length (filenames (PlzArchive_rename_file self old new)) =
           length (files (PlzArchive_rename_file self old new)) \<and>
         (case read_stream self rdr of
            None \<Rightarrow> True
          | Some (r, self') \<Rightarrow> length (filenames self') = length (files self'))"
proof -
  have a: "(case PlzArchive_add_file self nm of (new_file_id, self') \<Rightarrow>
            new_file_id = length (files self) \<and>
            length (filenames self') = length (files self') \<and>
            length (files self') = Suc new_file_id \<and>
            filenames self' ! new_file_id = nm \<and> files self' ! new_file_id = [])"
    using assms by (simp add: PlzArchive_add_file_def Let_def nth_append)
  have b: "(case PlzArchive_remove_file self nm of (r, self') \<Rightarrow>
            r = Inr () \<and> length (filenames self') = length (files self'))"
    using assms list_index_less [of "filenames self" nm]
    by (auto simp: PlzArchive_remove_file_def split: option.splits)
  have c: "length (filenames (PlzArchive_rename_file self old new)) =
           length (files (PlzArchive_rename_file self old new))"
    using assms by (simp add: PlzArchive_rename_file_def split: option.splits)
  have d: "(case read_stream self rdr of
            None \<Rightarrow> True
          | Some (r, self') \<Rightarrow> length (filenames self') = length (files self'))"
    using read_stream_lengths [of self rdr] by (auto split: option.splits)
  from a b c d show ?thesis by blast
qed

theorem PlzArchive_operations_keep_lengths_witness:
  "length (filenames plz_example) = length (files plz_example) \<and>
   PlzArchive_add_file plz_example ''yy'' =
     (1, \<lparr>files = [[1, 2], []], handles = [], opened_files = [],
          filenames = [''x'', ''yy'']\<rparr>) \<and>
   PlzArchive_remove_file plz_example ''x'' =
     (Inr (), \<lparr>files = [], handles = [], opened_files = [], filenames = []\<rparr>) \<and>
   PlzArchive_rename_file plz_example ''x'' ''z'' =
     \<lparr>files = [[1, 2]], handles = [], opened_files = [], filenames = [''z'']\<rparr> \<and>
   read_stream plz_example \<lparr>rdr_data = plz_example_bytes, rdr_c = 0\<rparr> =
     Some (Inr (), \<lparr>files = [[1, 2, 3]], handles = [], opened_files = [],
                    filenames = [''x'']\<rparr>)"
proof -
  have h: "length (filenames plz_example) = length (files plz_example)"
    by (simp add: plz_example_def)
  note t = PlzArchive_operations_keep_lengths
    [OF h, of "''yy''" "''x''" "''z''" "\<lparr>rdr_data = plz_example_bytes, rdr_c = 0\<rparr>"]
  have e1: "PlzArchive_add_file plz_example ''yy'' =
     (1, \<lparr>files = [[1, 2], []], handles = [], opened_files = [],
          filenames = [''x'', ''yy'']\<rparr>)"
    by (simp add: PlzArchive_add_file_def plz_example_def)
  have e2: "PlzArchive_remove_file plz_example ''x'' =
     (Inr (), \<lparr>files = [], handles = [], opened_files = [], filenames = []\<rparr>)"
    by (simp add: PlzArchive_remove_file_def plz_example_def)
  have e3: "PlzArchive_rename_file plz_example ''x'' ''z'' =
     \<lparr>files = [[1, 2]], handles = [], opened_files = [], filenames = [''z'']\<rparr>"
    by (simp add: PlzArchive_rename_file_def plz_example_def)
  have e4: "read_stream plz_example \<lparr>rdr_data = plz_example_bytes, rdr_c = 0\<rparr> =
     Some (Inr (), \<lparr>files = [[1, 2, 3]], handles = [], opened_files = [],
                    filenames = [''x'']\<rparr>)"
    by (simp add: reader_simps plz_example_def plz_example_bytes_def)
  from t h e1 e2 e3 e4 show ?thesis by blast
qed

end
